theory Spec2Isabelle
  imports Main
begin

section \<open>The mysql-connector-cpp recipe\<close>

text \<open>
  A shallow embedding of \<^verbatim>\<open>recipes/mysql-connector-cpp/all/conanfile.py\<close>, the class
  \<^verbatim>\<open>MysqlCppConnRecipe\<close>. Settings and option values are strings and booleans, as the
  recipe reads them; an exception raised by the recipe or by a helper of the Conan
  library is the left summand of the result.
\<close>

subsection \<open>Python strings\<close>

text \<open>\<^verbatim>\<open>s.startswith(p)\<close>.\<close>

fun startswith :: "string \<Rightarrow> string \<Rightarrow> bool" where
  "startswith s [] = True"
| "startswith [] (p # ps) = False"
| "startswith (c # cs) (p # ps) = (c = p \<and> startswith cs ps)"

text \<open>\<^verbatim>\<open>sub in s\<close>, which is \<^verbatim>\<open>s.find(sub) != -1\<close>.\<close>

fun str_contains :: "string \<Rightarrow> string \<Rightarrow> bool" where
  "str_contains [] sub = (sub = [])"
| "str_contains (c # cs) sub = (startswith (c # cs) sub \<or> str_contains cs sub)"

text \<open>
  \<^verbatim>\<open>s.replace(old, new)\<close>: every occurrence of \<open>old\<close>, found from the left and not
  overlapping, becomes \<open>new\<close>. With an empty \<open>old\<close> Python puts \<open>new\<close> before every
  character and at the end.
\<close>

fun str_replace :: "string \<Rightarrow> string \<Rightarrow> string \<Rightarrow> string" where
  "str_replace [] new s = new @ concat (map (\<lambda>c. c # new) s)"
| "str_replace (x # xs) new [] = []"
| "str_replace (x # xs) new (c # cs) =
     (if startswith (c # cs) (x # xs)
      then new @ str_replace (x # xs) new (drop (length xs) cs)
      else c # str_replace (x # xs) new cs)"

text \<open>\<^verbatim>\<open>s.split(sep)\<close> for a separator of one character.\<close>

fun str_split :: "char \<Rightarrow> string \<Rightarrow> string list" where
  "str_split sep [] = [[]]"
| "str_split sep (c # cs) =
     (if c = sep then [] # str_split sep cs
      else (case str_split sep cs of
              [] \<Rightarrow> [[c]]
            | w # ws \<Rightarrow> (c # w) # ws))"

text \<open>\<^verbatim>\<open>a < b\<close> on strings: lexicographic on the code points.\<close>

fun str_lt :: "string \<Rightarrow> string \<Rightarrow> bool" where
  "str_lt [] [] = False"
| "str_lt [] (d # ds) = True"
| "str_lt (c # cs) [] = False"
| "str_lt (c # cs) (d # ds) =
     (if c = d then str_lt cs ds else (of_char c :: nat) < of_char d)"

text \<open>\<^verbatim>\<open>str(n)\<close> for a non-negative integer, and \<^verbatim>\<open>int(s)\<close> for a string of decimal digits.\<close>

definition digit_char :: "nat \<Rightarrow> char" where
  "digit_char d = char_of (48 + d)"

function str_of_nat :: "nat \<Rightarrow> string" where
  "str_of_nat n =
     (if n < 10 then [digit_char n] else str_of_nat (n div 10) @ [digit_char (n mod 10)])"
  by pat_completeness auto
termination
  by (relation "measure (\<lambda>n. n)") auto

definition isdigit :: "string \<Rightarrow> bool" where
  "isdigit s = (s \<noteq> [] \<and> list_all (\<lambda>c. 48 \<le> (of_char c :: nat) \<and> (of_char c :: nat) \<le> 57) s)"

definition int_of_digits :: "string \<Rightarrow> nat" where
  "int_of_digits s = foldl (\<lambda>n c. 10 * n + (of_char c - 48)) 0 s"

subsection \<open>Errors\<close>

text \<open>
  The exceptions the recipe can end with: \<^verbatim>\<open>ConanInvalidConfiguration\<close> with its message
  (the specification's \<open>UnsupportedToolchain\<close>), the \<^verbatim>\<open>ConanException\<close> of
  \<^verbatim>\<open>replace_in_file\<close> with the pattern and the file it was not found in (the
  specification's \<open>PatchApplicationError\<close>), the \<^verbatim>\<open>FileNotFoundError\<close> of reading a file
  that is not in the source tree, and the \<^verbatim>\<open>KeyError\<close> of a dependency that is not in
  the graph (the specification's \<open>DependencyNotFound\<close>).
\<close>

datatype error =
    ConanInvalidConfiguration string
  | ConanException string "string list"
  | FileNotFoundError "string list"
  | KeyError string

subsection \<open>Settings and options\<close>

text \<open>
  \<^verbatim>\<open>self.settings\<close>: \<^verbatim>\<open>settings = "os", "compiler", "build_type", "arch"\<close>, with the
  sub-settings of the compiler that the recipe or the helpers it calls read. A
  sub-setting that is not defined is \<open>None\<close>, as \<^verbatim>\<open>get_safe\<close> returns it.
  \<open>cross_building\<close> is the answer of \<^verbatim>\<open>conan.tools.build.cross_building(self)\<close>, which
  compares these settings with the build machine's.
\<close>

record settings =
  os :: string
  compiler :: string
  compiler_version :: string
  compiler_cppstd :: "string option"
  compiler_runtime :: "string option"
  compiler_runtime_type :: "string option"
  build_type :: string
  arch :: string
  cross_building :: bool

text \<open>
  \<^verbatim>\<open>self.options\<close>: \<^verbatim>\<open>options = {"shared": [True, False], "fPIC": [True, False]}\<close>.
  \<^verbatim>\<open>rm_safe("fPIC")\<close> removes the option; a removed option is \<open>None\<close>.
\<close>

record options =
  shared :: bool
  fPIC :: "bool option"

definition default_options :: options where
  "default_options = \<lparr>shared = False, fPIC = Some True\<rparr>"

subsection \<open>Helpers of the Conan library\<close>

text \<open>
  \<^verbatim>\<open>conan.tools.scm.Version\<close>, for a version written as items separated by dots (the
  form of every \<^verbatim>\<open>compiler.version\<close> of Conan's settings and of every entry of the
  recipe's table; the pre-release and build parts that Conan splits off at \<^verbatim>\<open>-\<close> and
  \<^verbatim>\<open>+\<close> are not modelled). An item is an integer when it is a
  number, a string otherwise; trailing zero items do not count in comparisons.
\<close>

datatype version_item = VInt nat | VStr string

definition VersionItem :: "string \<Rightarrow> version_item" where
  "VersionItem item = (if isdigit item then VInt (int_of_digits item) else VStr item)"

fun item_str :: "version_item \<Rightarrow> string" where
  "item_str (VInt n) = str_of_nat n"
| "item_str (VStr s) = s"

text \<open>
  \<^verbatim>\<open>_VersionItem.__lt__\<close>: two integers or two strings compare as such; an integer and a
  string compare as strings.
\<close>

fun item_lt :: "version_item \<Rightarrow> version_item \<Rightarrow> bool" where
  "item_lt (VInt a) (VInt b) = (a < b)"
| "item_lt a b = str_lt (item_str a) (item_str b)"

fun strip_zeros :: "version_item list \<Rightarrow> version_item list" where
  "strip_zeros [] = []"
| "strip_zeros (x # xs) =
     (case strip_zeros xs of
        [] \<Rightarrow> (if x = VInt 0 then [] else [x])
      | y # ys \<Rightarrow> x # y # ys)"

definition Version :: "string \<Rightarrow> version_item list" where
  "Version v = strip_zeros (map VersionItem (str_split CHR ''.'' v))"

text \<open>The order of Python tuples, on the items of two versions.\<close>

fun Version_lt :: "version_item list \<Rightarrow> version_item list \<Rightarrow> bool" where
  "Version_lt [] [] = False"
| "Version_lt [] (y # ys) = True"
| "Version_lt (x # xs) [] = False"
| "Version_lt (x # xs) (y # ys) = (if x = y then Version_lt xs ys else item_lt x y)"

text \<open>
  \<^verbatim>\<open>conan.tools.build.check_min_cppstd(conanfile, cppstd)\<close>: the \<^verbatim>\<open>gnu\<close> of a GNU dialect
  is dropped, the century is put in front and the two years are compared as strings.
\<close>

definition add_millennium :: "string \<Rightarrow> string" where
  "add_millennium cppstd = (if cppstd = ''98'' then ''19'' @ cppstd else ''20'' @ cppstd)"

definition extract_cpp_version :: "string \<Rightarrow> string" where
  "extract_cpp_version cppstd = str_replace ''gnu'' [] cppstd"

definition check_min_cppstd :: "settings \<Rightarrow> string \<Rightarrow> error + unit" where
  "check_min_cppstd s cppstd =
     (case compiler_cppstd s of
        None \<Rightarrow>
          Inl (ConanInvalidConfiguration
                 ''The compiler.cppstd is not defined for this configuration'')
      | Some current_cppstd \<Rightarrow>
          if str_lt (add_millennium (extract_cpp_version current_cppstd))
                    (add_millennium cppstd)
          then Inl (ConanInvalidConfiguration
                 (''Current cppstd ('' @ current_cppstd @
                  '') is lower than the required C++ standard ('' @ cppstd @ '').''))
          else Inr ())"

text \<open>
  \<^verbatim>\<open>conan.tools.microsoft.is_msvc\<close> and \<^verbatim>\<open>conan.tools.apple.is_apple_os\<close>, with the
  names of Conan 1 and Conan 2 together (the recipe asks for Conan 1.64.1 or later):
  \<^verbatim>\<open>Visual Studio\<close> is a compiler of Conan 1 only, \<^verbatim>\<open>visionOS\<close> a system of Conan 2 only.
\<close>

definition is_msvc :: "settings \<Rightarrow> bool" where
  "is_msvc s = (compiler s \<in> set [''Visual Studio'', ''msvc''])"

definition is_apple_os :: "settings \<Rightarrow> bool" where
  "is_apple_os s = (os s \<in> set [''Macos'', ''iOS'', ''watchOS'', ''tvOS'', ''visionOS''])"

text \<open>
  \<^verbatim>\<open>conan.tools.microsoft.msvc_runtime_flag\<close> and \<^verbatim>\<open>is_msvc_static_runtime\<close>. The flag
  is the \<^verbatim>\<open>compiler.runtime\<close> of Visual Studio as it is (\<^verbatim>\<open>MT\<close>, \<^verbatim>\<open>MTd\<close>, \<^verbatim>\<open>MD\<close>, \<^verbatim>\<open>MDd\<close>);
  otherwise it is put together from \<^verbatim>\<open>compiler.runtime\<close> (\<^verbatim>\<open>static\<close> or \<^verbatim>\<open>dynamic\<close>, the
  two values Conan's settings allow) and \<^verbatim>\<open>compiler.runtime_type\<close>, and is empty when
  there is no \<^verbatim>\<open>compiler.runtime\<close>.
\<close>

definition msvc_runtime_flag :: "settings \<Rightarrow> string" where
  "msvc_runtime_flag s =
     (case compiler_runtime s of
        None \<Rightarrow> []
      | Some runtime \<Rightarrow>
          if compiler s = ''Visual Studio'' then runtime
          else (let runtime = (if runtime = ''static'' then ''MT'' else ''MD'')
                in if compiler_runtime_type s = Some ''Debug'' then runtime @ ''d''
                   else runtime))"

definition is_msvc_static_runtime :: "settings \<Rightarrow> bool" where
  "is_msvc_static_runtime s = (is_msvc s \<and> str_contains (msvc_runtime_flag s) ''MT'')"

subsection \<open>Validation\<close>

text \<open>\<^verbatim>\<open>_minimum_compilers_version\<close>: the dictionary, in the order it is written.\<close>

definition minimum_compilers_version :: "(string \<times> string) list" where
  "minimum_compilers_version =
     [(''Visual Studio'', ''14''),
      (''msvc'', ''192''),
      (''gcc'', ''8''),
      (''clang'', ''7''),
      (''apple-clang'', ''10'')]"

text \<open>
  \<^verbatim>\<open>validate\<close>. The language standard is checked first, and only when
  \<^verbatim>\<open>compiler.cppstd\<close> is set to a non-empty value. Then the compiler's minimum:
  \<^verbatim>\<open>.get(compiler_name, False)\<close> is \<open>None\<close> here when the compiler has no entry, and an
  entry counts when it is a non-empty string.
\<close>

definition validate :: "settings \<Rightarrow> error + unit" where
  "validate s =
     (case (if compiler_cppstd s \<noteq> None \<and> compiler_cppstd s \<noteq> Some []
            then check_min_cppstd s ''17'' else Inr ()) of
        Inl e \<Rightarrow> Inl e
      | Inr _ \<Rightarrow>
          (let compiler_name = compiler s;
               minimum_version = map_of minimum_compilers_version compiler_name
           in case minimum_version of
                None \<Rightarrow> Inr ()
              | Some mv \<Rightarrow>
                  if mv \<noteq> [] \<and> Version_lt (Version (compiler_version s)) (Version mv)
                  then Inl (ConanInvalidConfiguration
                         (''Requires compiler '' @ compiler_name @ '' minimum version: '' @
                          mv @ '' with C++17 support.''))
                  else Inr ()))"

subsection \<open>Option normalisation\<close>

text \<open>\<^verbatim>\<open>config_options\<close> and \<^verbatim>\<open>configure\<close>.\<close>

definition config_options :: "settings \<Rightarrow> options \<Rightarrow> options" where
  "config_options s opts = (if os s = ''Windows'' then opts\<lparr>fPIC := None\<rparr> else opts)"

definition configure :: "options \<Rightarrow> options" where
  "configure opts = (if shared opts then opts\<lparr>fPIC := None\<rparr> else opts)"

subsection \<open>The toolchain's variables\<close>

text \<open>
  \<^verbatim>\<open>self.dependencies\<close>: the packages of the host context by name, and those of the
  build context (\<^verbatim>\<open>self.dependencies.build\<close>). Of a package the recipe reads the folder
  and, for the build context's protobuf, the build type.
\<close>

record dependency =
  package_folder :: string
  dep_build_type :: string

record dependency_graph =
  host_deps :: "string \<rightharpoonup> dependency"
  build_deps :: "string \<rightharpoonup> dependency"

definition and_then :: "error + 'a \<Rightarrow> ('a \<Rightarrow> error + 'b) \<Rightarrow> error + 'b" where
  "and_then r f = (case r of Inl e \<Rightarrow> Inl e | Inr x \<Rightarrow> f x)"

text \<open>\<^verbatim>\<open>_package_folder_dep(dep, scope="host")\<close>: backslashes become slashes.\<close>

definition package_folder_dep :: "dependency_graph \<Rightarrow> string \<Rightarrow> string \<Rightarrow> error + string" where
  "package_folder_dep deps dep scope =
     (if scope = ''build''
      then (case build_deps deps dep of
              None \<Rightarrow> Inl (KeyError dep)
            | Some d \<Rightarrow> Inr (str_replace [CHR 0x5C] ''/'' (package_folder d)))
      else (case host_deps deps dep of
              None \<Rightarrow> Inl (KeyError dep)
            | Some d \<Rightarrow> Inr (str_replace [CHR 0x5C] ''/'' (package_folder d))))"

datatype cache_value = CStr string | CBool bool

text \<open>
  \<^verbatim>\<open>generate\<close>: the \<^verbatim>\<open>cache_variables\<close> of the toolchain, assigned in the order of the
  source. A dependency that is missing ends the function where it is looked up.
\<close>

definition generate :: "dependency_graph \<Rightarrow> options \<Rightarrow> error + (string \<rightharpoonup> cache_value)" where
  "generate deps opts =
     and_then (package_folder_dep deps ''openssl'' ''host'') (\<lambda>openssl.
     and_then (package_folder_dep deps ''lz4'' ''host'') (\<lambda>lz4.
     and_then (package_folder_dep deps ''zlib'' ''host'') (\<lambda>zlib.
     and_then (package_folder_dep deps ''zstd'' ''host'') (\<lambda>zstd.
     and_then (package_folder_dep deps ''protobuf'' ''build'') (\<lambda>protobuf.
       Inr (Map.empty
             (''WITH_SSL'' \<mapsto> CStr openssl,
              ''WITH_LZ4'' \<mapsto> CStr lz4,
              ''WITH_ZLIB'' \<mapsto> CStr zlib,
              ''WITH_ZSTD'' \<mapsto> CStr zstd,
              ''BUILD_STATIC'' \<mapsto> CBool (\<not> shared opts),
              ''BUILD_SHARED_LIBS'' \<mapsto> CBool (shared opts),
              ''BOOST_DIR'' \<mapsto> CStr ''FALSE'',
              ''WITH_PROTOBUF'' \<mapsto> CStr protobuf)))))))"

subsection \<open>Patching the sources\<close>

text \<open>
  The source tree: the text of each file, by the file's path below
  \<^verbatim>\<open>self.source_folder\<close> (the arguments of \<^verbatim>\<open>os.path.join\<close> after the folder).
\<close>

type_synonym source_tree = "string list \<rightharpoonup> string"

text \<open>
  \<^verbatim>\<open>conan.tools.files.replace_in_file(conanfile, file_path, search, replace, strict=True)\<close>:
  the file is read; when the text is not in it, a strict call raises and a call with
  \<^verbatim>\<open>strict=False\<close> warns and returns without writing; otherwise every occurrence is
  replaced and the file is saved.
\<close>

definition replace_in_file ::
  "source_tree \<Rightarrow> string list \<Rightarrow> string \<Rightarrow> string \<Rightarrow> bool \<Rightarrow> error + source_tree" where
  "replace_in_file tree file_path search replace strict =
     (case tree file_path of
        None \<Rightarrow> Inl (FileNotFoundError file_path)
      | Some content \<Rightarrow>
          if \<not> str_contains content search
          then (if strict then Inl (ConanException search file_path) else Inr tree)
          else Inr (tree(file_path \<mapsto> str_replace search replace content)))"

definition dquote :: string where
  "dquote = [CHR 0x22]"

definition newline :: string where
  "newline = [CHR 0x0A]"

text \<open>
  \<^verbatim>\<open>_patch_sources\<close>, in the three parts its comments name. First \<^verbatim>\<open># Fix static lib naming\<close>,
  for a static build with MSVC.
\<close>

definition fix_static_lib_naming :: "settings \<Rightarrow> options \<Rightarrow> source_tree \<Rightarrow> error + source_tree" where
  "fix_static_lib_naming s opts tree =
     (if \<not> shared opts \<and> is_msvc s
      then replace_in_file tree [''install_layout.cmake'']
             (''set(LIB_NAME_STATIC '' @ dquote @ ''${LIB_NAME}-mt'' @ dquote @ '')'')
             (''set(LIB_NAME_STATIC '' @ dquote @ ''${LIB_NAME_STATIC}-mt'' @ dquote @ '')'')
             False
      else Inr tree)"

text \<open>\<^verbatim>\<open># Apple patches\<close>, for a cross build to an Apple system.\<close>

definition apple_patches :: "settings \<Rightarrow> source_tree \<Rightarrow> error + source_tree" where
  "apple_patches s tree =
     (if is_apple_os s \<and> cross_building s
      then (let patch = ''set(CMAKE_OSX_ARCHITECTURES '' @ dquote @ arch s @ dquote @
                        '' CACHE INTERNAL '' @ dquote @ dquote @ '' FORCE)'' @ newline
            in replace_in_file tree [''CMakeLists.txt'']
                 ''PROJECT(MySQL_CONCPP)''
                 (''PROJECT(MySQL_CONCPP)'' @ newline @ patch)
                 False)
      else Inr tree)"

text \<open>
  \<^verbatim>\<open># Protobuf patches\<close>: the name of the library follows the build type of the build
  context's protobuf; the four calls leave \<^verbatim>\<open>strict\<close> at its default, \<open>True\<close>.
\<close>

definition protobuf_patches :: "dependency_graph \<Rightarrow> source_tree \<Rightarrow> error + source_tree" where
  "protobuf_patches deps tree =
     (case build_deps deps ''protobuf'' of
        None \<Rightarrow> Inl (KeyError ''protobuf'')
      | Some dep \<Rightarrow>
          (let protobuf = (if dep_build_type dep = ''Debug'' then ''protobufd'' else ''protobuf'')
           in
           and_then
             (replace_in_file tree [''cdk'', ''cmake'', ''DepFindProtobuf.cmake'']
                ''LIBRARY protobuf-lite pb_libprotobuf-lite'' [] True) (\<lambda>tree.
           and_then
             (replace_in_file tree [''cdk'', ''cmake'', ''DepFindProtobuf.cmake'']
                ''LIBRARY protobuf'' (''LIBRARY '' @ protobuf) True) (\<lambda>tree.
           and_then
             (replace_in_file tree [''cdk'', ''protocol'', ''mysqlx'', ''CMakeLists.txt'']
                ''ext::protobuf-lite'' (''ext::'' @ protobuf) True) (\<lambda>tree.
           replace_in_file tree [''cdk'', ''core'', ''CMakeLists.txt'']
                ''ext::protobuf-lite'' (''ext::'' @ protobuf) True)))))"

text \<open>The whole of \<^verbatim>\<open>_patch_sources\<close>: the three parts in the order of the source.\<close>

definition patch_sources ::
  "settings \<Rightarrow> options \<Rightarrow> dependency_graph \<Rightarrow> source_tree \<Rightarrow> error + source_tree" where
  "patch_sources s opts deps tree =
     and_then (fix_static_lib_naming s opts tree) (\<lambda>tree.
     and_then (apple_patches s tree) (\<lambda>tree.
     protobuf_patches deps tree))"

subsection \<open>What consumers are told\<close>

text \<open>
  \<^verbatim>\<open>self.cpp_info\<close>: the fields and the two properties that \<^verbatim>\<open>package_info\<close> writes
  (\<open>cpp_defines\<close> is the field \<^verbatim>\<open>defines\<close>). A new \<^verbatim>\<open>cpp_info\<close> has Conan's default library
  directory, no libraries, no definitions and no property.
\<close>

record cpp_info =
  libdirs :: "string list"
  system_libs :: "string list"
  libs :: "string list"
  cpp_defines :: "string list"
  cmake_target_name :: "string option"
  cmake_target_aliases :: "string list option"

definition new_cpp_info :: cpp_info where
  "new_cpp_info =
     \<lparr>libdirs = [''lib''], system_libs = [], libs = [], cpp_defines = [],
      cmake_target_name = None, cmake_target_aliases = None\<rparr>"

text \<open>
  \<^verbatim>\<open>os.path.join(a, b)\<close> for two relative, non-empty names: \<open>sep\<close> is \<^verbatim>\<open>os.sep\<close>, the
  separator of the machine the recipe runs on.
\<close>

definition os_path_join :: "string \<Rightarrow> string \<Rightarrow> string \<Rightarrow> string" where
  "os_path_join sep a b = a @ sep @ b"

text \<open>
  \<^verbatim>\<open>package_info\<close>, statement by statement; \<open>ci\<close> is \<^verbatim>\<open>self.cpp_info\<close> as the function
  finds it.
\<close>

definition package_info :: "string \<Rightarrow> settings \<Rightarrow> options \<Rightarrow> cpp_info \<Rightarrow> cpp_info" where
  "package_info sep s opts ci =
     (let lib_dir = (if build_type s = ''Release'' then [''lib'']
                     else [os_path_join sep ''lib'' ''debug'']);
          lib_dir = (if is_msvc s then [os_path_join sep (lib_dir ! 0) ''vs14''] else lib_dir);
          ci = ci\<lparr>libdirs := lib_dir\<rparr>;
          ci = (if is_apple_os s \<or> os s \<in> set [''Linux'', ''FreeBSD'']
                then (let ci = ci\<lparr>system_libs := system_libs ci @ [''resolv'']\<rparr>
                      in if os s \<in> set [''Linux'', ''FreeBSD'']
                         then ci\<lparr>system_libs := system_libs ci @ [''m'', ''pthread'']\<rparr>
                         else ci)
                else ci);
          target = ''concpp-xdevapi'';
          target_alias = ''concpp'';
          target = (if shared opts then target @ ''-static'' else target);
          target_alias = (if shared opts then target_alias @ ''-static'' else target_alias);
          target = (if build_type s = ''Debug'' then target @ ''-debug'' else target);
          target_alias = (if build_type s = ''Debug'' then target_alias @ ''-debug''
                          else target_alias);
          ci = ci\<lparr>cmake_target_name := Some ''mysql::concpp''\<rparr>;
          ci = ci\<lparr>cmake_target_aliases := Some [''mysql::'' @ target_alias]\<rparr>;
          lib = (if shared opts then ''mysqlcppconnx'' else ''mysqlcppconnx-static'');
          lib = (if is_msvc s \<and> \<not> shared opts \<and> is_msvc_static_runtime s
                 then lib @ ''-mt'' else lib);
          ci = ci\<lparr>libs := [lib]\<rparr>
      in if \<not> shared opts
         then (let ci = ci\<lparr>cpp_defines := [''MYSQL_STATIC'']\<rparr>
               in ci\<lparr>cpp_defines := [''STATIC_CONCPP'']\<rparr>)
         else ci)"

subsection \<open>Inputs for the examples\<close>

text \<open>A Linux machine with gcc 9 and no language standard set, building Release.\<close>

definition linux_gcc :: settings where
  "linux_gcc =
     \<lparr>os = ''Linux'', compiler = ''gcc'', compiler_version = ''9'',
      compiler_cppstd = None, compiler_runtime = None, compiler_runtime_type = None,
      build_type = ''Release'', arch = ''x86_64'', cross_building = False\<rparr>"

text \<open>A graph with every dependency of the recipe, protobuf in both contexts.\<close>

definition example_deps :: dependency_graph where
  "example_deps =
     \<lparr>host_deps =
        [''openssl'' \<mapsto> \<lparr>package_folder = ''/p/openssl'', dep_build_type = ''Release''\<rparr>,
         ''lz4'' \<mapsto> \<lparr>package_folder = ''/p/lz4'', dep_build_type = ''Release''\<rparr>,
         ''zlib'' \<mapsto> \<lparr>package_folder = ''/p/zlib'', dep_build_type = ''Release''\<rparr>,
         ''zstd'' \<mapsto> \<lparr>package_folder = ''/p/zstd'', dep_build_type = ''Release''\<rparr>,
         ''protobuf'' \<mapsto> \<lparr>package_folder = ''/p/protobuf'', dep_build_type = ''Release''\<rparr>],
      build_deps =
        [''protobuf'' \<mapsto> \<lparr>package_folder = ''/b/protobuf'', dep_build_type = ''Release''\<rparr>]\<rparr>"

text \<open>
  A source tree in which every patch finds its text: the five files that
  \<^verbatim>\<open>_patch_sources\<close> reads.
\<close>

definition example_tree :: source_tree where
  "example_tree =
     [[''install_layout.cmake''] \<mapsto>
        ''set(LIB_NAME_STATIC '' @ dquote @ ''${LIB_NAME}-mt'' @ dquote @ '')'',
      [''CMakeLists.txt''] \<mapsto> ''PROJECT(MySQL_CONCPP)'',
      [''cdk'', ''cmake'', ''DepFindProtobuf.cmake''] \<mapsto>
        ''LIBRARY protobuf-lite pb_libprotobuf-lite LIBRARY protobuf pb_libprotobuf'',
      [''cdk'', ''protocol'', ''mysqlx'', ''CMakeLists.txt''] \<mapsto> ''ext::protobuf-lite'',
      [''cdk'', ''core'', ''CMakeLists.txt''] \<mapsto> ''ext::protobuf-lite'']"

text \<open>The text of one file after a run, or the error the run ended with.\<close>

definition file_after :: "error + source_tree \<Rightarrow> string list \<Rightarrow> error + string option" where
  "file_after r file_path = (case r of Inl e \<Rightarrow> Inl e | Inr tree \<Rightarrow> Inr (tree file_path))"

section \<open>Properties\<close>

subsection \<open>Validation\<close>

lemma table_entry_nonempty:
  "map_of minimum_compilers_version c = Some mv \<Longrightarrow> mv \<noteq> []"
  by (auto simp: minimum_compilers_version_def split: if_splits)

lemma check_min_cppstd_error:
  "check_min_cppstd s x = Inl e \<Longrightarrow> \<exists>msg. e = ConanInvalidConfiguration msg"
  by (auto simp: check_min_cppstd_def split: option.splits if_splits)

text \<open>
  What \<^verbatim>\<open>check_min_cppstd(self, "17")\<close> does with the values of \<^verbatim>\<open>compiler.cppstd\<close>:
  C++17 and later pass, with or without GNU extensions; earlier standards raise.
\<close>

lemma check_min_cppstd_17_passes:
  "cppstd \<in> set [''17'', ''gnu17'', ''20'', ''gnu20'', ''23'', ''gnu23'', ''26'', ''gnu26''] \<Longrightarrow>
   check_min_cppstd (s\<lparr>compiler_cppstd := Some cppstd\<rparr>) ''17'' = Inr ()"
  by (auto simp: check_min_cppstd_def add_millennium_def extract_cpp_version_def)

lemma check_min_cppstd_17_raises:
  "cppstd \<in> set [''98'', ''gnu98'', ''11'', ''gnu11'', ''14'', ''gnu14''] \<Longrightarrow>
   isl (check_min_cppstd (s\<lparr>compiler_cppstd := Some cppstd\<rparr>) ''17'')"
  by (auto simp: check_min_cppstd_def add_millennium_def extract_cpp_version_def)

lemmas version_eval =
  Version_def VersionItem_def isdigit_def int_of_digits_def minimum_compilers_version_def

text \<open>
  C1, as amended. When the compiler has an entry in the table and its version is below
  the entry, \<^verbatim>\<open>validate\<close> raises \<^verbatim>\<open>ConanInvalidConfiguration\<close>; the message names the
  compiler and the minimum whenever the check of the language standard lets the run
  reach the table (no \<^verbatim>\<open>compiler.cppstd\<close>, or one that is at least C++17). When the
  compiler has no entry, \<^verbatim>\<open>validate\<close> passes whatever the version is, provided the same
  check of the language standard passes.
\<close>

theorem validate_minimum_version:
  "(map_of minimum_compilers_version (compiler s) = Some mv \<and>
    Version_lt (Version (compiler_version s)) (Version mv) \<longrightarrow>
      (\<exists>msg. validate s = Inl (ConanInvalidConfiguration msg)) \<and>
      (compiler_cppstd s = None \<or> compiler_cppstd s = Some [] \<or>
       check_min_cppstd s ''17'' = Inr () \<longrightarrow>
         validate s = Inl (ConanInvalidConfiguration
           (''Requires compiler '' @ compiler s @ '' minimum version: '' @ mv @
            '' with C++17 support.'')))) \<and>
   (map_of minimum_compilers_version (compiler s) = None \<and>
    (compiler_cppstd s = None \<or> compiler_cppstd s = Some [] \<or>
     check_min_cppstd s ''17'' = Inr ()) \<longrightarrow>
      validate s = Inr ())"
proof (intro conjI impI)
  assume a: "map_of minimum_compilers_version (compiler s) = Some mv \<and>
    Version_lt (Version (compiler_version s)) (Version mv)"
  then have ne: "mv \<noteq> []" by (auto dest: table_entry_nonempty)
  show "\<exists>msg. validate s = Inl (ConanInvalidConfiguration msg)"
  proof (cases "compiler_cppstd s \<noteq> None \<and> compiler_cppstd s \<noteq> Some []")
    case True
    show ?thesis
    proof (cases "check_min_cppstd s ''17''")
      case (Inl e)
      with True check_min_cppstd_error [OF Inl] show ?thesis
        by (auto simp: validate_def)
    next
      case (Inr u)
      with True a ne show ?thesis by (simp add: validate_def)
    qed
  next
    case False
    with a ne show ?thesis by (auto simp: validate_def)
  qed
  assume "compiler_cppstd s = None \<or> compiler_cppstd s = Some [] \<or>
       check_min_cppstd s ''17'' = Inr ()"
  with a ne show "validate s = Inl (ConanInvalidConfiguration
           (''Requires compiler '' @ compiler s @ '' minimum version: '' @ mv @
            '' with C++17 support.''))"
    by (auto simp: validate_def)
next
  assume "map_of minimum_compilers_version (compiler s) = None \<and>
    (compiler_cppstd s = None \<or> compiler_cppstd s = Some [] \<or>
     check_min_cppstd s ''17'' = Inr ())"
  then show "validate s = Inr ()"
    by (auto simp: validate_def)
qed

theorem validate_minimum_version_witness:
  "validate (linux_gcc\<lparr>compiler_version := ''7.5''\<rparr>) =
     Inl (ConanInvalidConfiguration
            ''Requires compiler gcc minimum version: 8 with C++17 support.'') \<and>
   validate (linux_gcc\<lparr>os := ''Windows'', compiler := ''msvc'', compiler_version := ''191'',
                        compiler_cppstd := Some ''17''\<rparr>) =
     Inl (ConanInvalidConfiguration
            ''Requires compiler msvc minimum version: 192 with C++17 support.'') \<and>
   validate (linux_gcc\<lparr>compiler := ''intel-cc'', compiler_version := ''1''\<rparr>) = Inr ()"
  using validate_minimum_version [of "linux_gcc\<lparr>compiler_version := ''7.5''\<rparr>" "''8''"]
    validate_minimum_version [of "linux_gcc\<lparr>os := ''Windows'', compiler := ''msvc'',
      compiler_version := ''191'', compiler_cppstd := Some ''17''\<rparr>" "''192''"]
    validate_minimum_version [of "linux_gcc\<lparr>compiler := ''intel-cc'',
      compiler_version := ''1''\<rparr>" "''8''"]
  by (simp add: linux_gcc_def version_eval check_min_cppstd_def add_millennium_def
      extract_cpp_version_def)

text \<open>
  C1 as stated fails: intel-cc has no entry in the table, and with
  \<^verbatim>\<open>compiler.cppstd=14\<close> the check of the language standard raises before the table
  is read.
\<close>

theorem validate_absent_compiler_counterexample:
  "map_of minimum_compilers_version
     (compiler (linux_gcc\<lparr>compiler := ''intel-cc'', compiler_version := ''2021.3'',
                          compiler_cppstd := Some ''14''\<rparr>)) = None \<and>
   validate (linux_gcc\<lparr>compiler := ''intel-cc'', compiler_version := ''2021.3'',
                        compiler_cppstd := Some ''14''\<rparr>) =
     Inl (ConanInvalidConfiguration
            ''Current cppstd (14) is lower than the required C++ standard (17).'')"
  by (simp add: linux_gcc_def validate_def minimum_compilers_version_def check_min_cppstd_def
      add_millennium_def extract_cpp_version_def)

subsection \<open>Option normalisation\<close>

text \<open>
  C5. After \<^verbatim>\<open>config_options\<close> and \<^verbatim>\<open>configure\<close>, \<^verbatim>\<open>fPIC\<close> is removed when \<^verbatim>\<open>shared\<close> is
  true, and removed on Windows whatever \<^verbatim>\<open>shared\<close> is; otherwise it keeps its value,
  which is \<open>True\<close> by default. Both functions only remove \<^verbatim>\<open>fPIC\<close>, so \<open>opts\<close> stands for
  the option values with the user's choices in them.
\<close>

theorem fPIC_after_normalisation:
  "(shared opts \<longrightarrow> fPIC (configure (config_options s opts)) = None) \<and>
   (os s = ''Windows'' \<longrightarrow> fPIC (configure (config_options s opts)) = None) \<and>
   (\<not> shared opts \<and> os s \<noteq> ''Windows'' \<longrightarrow>
      fPIC (configure (config_options s opts)) = fPIC opts) \<and>
   shared (configure (config_options s opts)) = shared opts \<and>
   fPIC default_options = Some True"
  by (simp add: configure_def config_options_def default_options_def)

theorem fPIC_after_normalisation_witness:
  "fPIC (configure (config_options linux_gcc (default_options\<lparr>shared := True\<rparr>))) = None \<and>
   fPIC (configure (config_options (linux_gcc\<lparr>os := ''Windows''\<rparr>) default_options)) = None \<and>
   fPIC (configure (config_options linux_gcc default_options)) = Some True"
  using fPIC_after_normalisation [of "default_options\<lparr>shared := True\<rparr>" linux_gcc]
    fPIC_after_normalisation [of default_options "linux_gcc\<lparr>os := ''Windows''\<rparr>"]
    fPIC_after_normalisation [of default_options linux_gcc]
  by (simp add: default_options_def linux_gcc_def)

subsection \<open>The toolchain's variables\<close>

lemma and_then_Inr:
  "and_then r f = Inr y \<longleftrightarrow> (\<exists>x. r = Inr x \<and> f x = Inr y)"
  by (cases r) (simp_all add: and_then_def)

lemma package_folder_dep_host:
  "host_deps deps dep = Some d \<Longrightarrow>
   package_folder_dep deps dep ''host'' = Inr (str_replace [CHR 0x5C] ''/'' (package_folder d))"
  by (simp add: package_folder_dep_def)

lemma package_folder_dep_build:
  "build_deps deps dep = Some d \<Longrightarrow>
   package_folder_dep deps dep ''build'' = Inr (str_replace [CHR 0x5C] ''/'' (package_folder d))"
  by (simp add: package_folder_dep_def)

lemma generate_flags:
  assumes "generate deps opts = Inr vs"
  shows "vs ''BUILD_STATIC'' = Some (CBool (\<not> shared opts))"
    and "vs ''BUILD_SHARED_LIBS'' = Some (CBool (shared opts))"
  using assms by (auto simp: generate_def and_then_Inr)

lemma generate_succeeds:
  assumes "host_deps deps ''openssl'' \<noteq> None" "host_deps deps ''lz4'' \<noteq> None"
    "host_deps deps ''zlib'' \<noteq> None" "host_deps deps ''zstd'' \<noteq> None"
    "build_deps deps ''protobuf'' \<noteq> None"
  shows "\<exists>vs. generate deps opts = Inr vs"
  using assms
  by (auto simp: generate_def and_then_def package_folder_dep_host package_folder_dep_build)

text \<open>
  C6. Whenever \<^verbatim>\<open>generate\<close> returns the variables, \<^verbatim>\<open>BUILD_STATIC\<close> is \<open>\<not> shared\<close> and
  \<^verbatim>\<open>BUILD_SHARED_LIBS\<close> is \<open>shared\<close>, so exactly one of the two is true; and it does
  return them when the five dependencies it looks up are in the graph.
\<close>

theorem generate_exactly_one_build_flag:
  "(generate deps opts = Inr vs \<longrightarrow>
      vs ''BUILD_STATIC'' = Some (CBool (\<not> shared opts)) \<and>
      vs ''BUILD_SHARED_LIBS'' = Some (CBool (shared opts)) \<and>
      (vs ''BUILD_STATIC'' = Some (CBool True)) \<noteq> (vs ''BUILD_SHARED_LIBS'' = Some (CBool True))) \<and>
   (host_deps deps ''openssl'' \<noteq> None \<and> host_deps deps ''lz4'' \<noteq> None \<and>
    host_deps deps ''zlib'' \<noteq> None \<and> host_deps deps ''zstd'' \<noteq> None \<and>
    build_deps deps ''protobuf'' \<noteq> None \<longrightarrow> (\<exists>vs. generate deps opts = Inr vs))"
proof (intro conjI impI)
  assume g: "generate deps opts = Inr vs"
  show "vs ''BUILD_STATIC'' = Some (CBool (\<not> shared opts))"
    by (rule generate_flags(1) [OF g])
  show "vs ''BUILD_SHARED_LIBS'' = Some (CBool (shared opts))"
    by (rule generate_flags(2) [OF g])
  show "(vs ''BUILD_STATIC'' = Some (CBool True)) \<noteq> (vs ''BUILD_SHARED_LIBS'' = Some (CBool True))"
    by (simp add: generate_flags [OF g])
next
  assume "host_deps deps ''openssl'' \<noteq> None \<and> host_deps deps ''lz4'' \<noteq> None \<and>
    host_deps deps ''zlib'' \<noteq> None \<and> host_deps deps ''zstd'' \<noteq> None \<and>
    build_deps deps ''protobuf'' \<noteq> None"
  then show "\<exists>vs. generate deps opts = Inr vs"
    by (intro generate_succeeds) simp_all
qed

lemma generate_example:
  "\<exists>vs. generate example_deps opts = Inr vs"
  by (rule generate_succeeds) (simp_all add: example_deps_def)

theorem generate_exactly_one_build_flag_witness:
  "\<exists>vs. generate example_deps default_options = Inr vs \<and>
        vs ''BUILD_STATIC'' = Some (CBool True) \<and>
        vs ''BUILD_SHARED_LIBS'' = Some (CBool False)"
proof -
  obtain vs where g: "generate example_deps default_options = Inr vs"
    using generate_example by blast
  from generate_exactly_one_build_flag [of example_deps default_options vs] g
  have "vs ''BUILD_STATIC'' = Some (CBool True) \<and> vs ''BUILD_SHARED_LIBS'' = Some (CBool False)"
    by (simp add: default_options_def)
  with g show ?thesis by blast
qed

subsection \<open>What consumers are told\<close>

lemma package_info_libdirs:
  "libdirs (package_info sep s opts ci) =
     (let d = (if build_type s = ''Release'' then ''lib'' else os_path_join sep ''lib'' ''debug'')
      in [if is_msvc s then os_path_join sep d ''vs14'' else d])"
  by (simp add: package_info_def Let_def)

lemma package_info_system_libs:
  "system_libs (package_info sep s opts ci) =
     system_libs ci @
     (if os s = ''Linux'' \<or> os s = ''FreeBSD'' then [''resolv'', ''m'', ''pthread'']
      else if is_apple_os s then [''resolv''] else [])"
  by (simp add: package_info_def Let_def)

lemma package_info_libs:
  "libs (package_info sep s opts ci) =
     [(if shared opts then ''mysqlcppconnx'' else ''mysqlcppconnx-static'') @
      (if is_msvc s \<and> \<not> shared opts \<and> is_msvc_static_runtime s then ''-mt'' else [])]"
  by (simp add: package_info_def Let_def)

lemma package_info_defines:
  "cpp_defines (package_info sep s opts ci) =
     (if shared opts then cpp_defines ci else [''STATIC_CONCPP''])"
  by (simp add: package_info_def Let_def)

lemma package_info_targets:
  "cmake_target_name (package_info sep s opts ci) = Some ''mysql::concpp''"
  "cmake_target_aliases (package_info sep s opts ci) =
     Some [''mysql::concpp'' @ (if shared opts then ''-static'' else []) @
           (if build_type s = ''Debug'' then ''-debug'' else [])]"
  by (simp_all add: package_info_def Let_def)

text \<open>
  C2. With \<^verbatim>\<open>shared=False\<close> the second assignment to \<^verbatim>\<open>self.cpp_info.defines\<close> replaces
  the first: the definitions are \<^verbatim>\<open>STATIC_CONCPP\<close> alone, and \<^verbatim>\<open>MYSQL_STATIC\<close> is not among
  them. With \<^verbatim>\<open>shared=True\<close> a new \<^verbatim>\<open>cpp_info\<close> keeps its empty list.
\<close>

theorem package_info_defines_overwritten:
  "cpp_defines (package_info sep s (opts\<lparr>shared := False\<rparr>) ci) = [''STATIC_CONCPP''] \<and>
   ''MYSQL_STATIC'' \<notin> set (cpp_defines (package_info sep s (opts\<lparr>shared := False\<rparr>) ci)) \<and>
   cpp_defines (package_info sep s (opts\<lparr>shared := True\<rparr>) new_cpp_info) = []"
  by (simp add: package_info_defines new_cpp_info_def)

text \<open>
  C3. The library is \<^verbatim>\<open>mysqlcppconnx\<close> for a shared build and \<^verbatim>\<open>mysqlcppconnx-static\<close> for
  a static one, with \<^verbatim>\<open>-mt\<close> added exactly for a static build with MSVC and its static
  runtime; on Linux with gcc a static build is \<^verbatim>\<open>mysqlcppconnx-static\<close>.
\<close>

theorem package_info_library_name:
  "(shared opts \<longrightarrow> libs (package_info sep s opts ci) = [''mysqlcppconnx'']) \<and>
   (\<not> shared opts \<and> \<not> (is_msvc s \<and> is_msvc_static_runtime s) \<longrightarrow>
      libs (package_info sep s opts ci) = [''mysqlcppconnx-static'']) \<and>
   (\<not> shared opts \<and> is_msvc s \<and> is_msvc_static_runtime s \<longrightarrow>
      libs (package_info sep s opts ci) = [''mysqlcppconnx-static-mt'']) \<and>
   (os s = ''Linux'' \<and> compiler s = ''gcc'' \<and> \<not> shared opts \<longrightarrow>
      libs (package_info sep s opts ci) = [''mysqlcppconnx-static''])"
  by (auto simp: package_info_libs is_msvc_def)

theorem package_info_library_name_witness:
  "libs (package_info ''/'' linux_gcc (default_options\<lparr>shared := True\<rparr>) new_cpp_info) =
     [''mysqlcppconnx''] \<and>
   libs (package_info ''/'' linux_gcc default_options new_cpp_info) = [''mysqlcppconnx-static''] \<and>
   libs (package_info [CHR 0x5C]
           (linux_gcc\<lparr>os := ''Windows'', compiler := ''msvc'', compiler_version := ''193'',
                       compiler_runtime := Some ''static'', build_type := ''Debug''\<rparr>)
           default_options new_cpp_info) = [''mysqlcppconnx-static-mt''] \<and>
   libs (package_info [CHR 0x5C]
           (linux_gcc\<lparr>os := ''Windows'', compiler := ''msvc'', compiler_version := ''193'',
                       compiler_runtime := Some ''dynamic''\<rparr>)
           default_options new_cpp_info) = [''mysqlcppconnx-static'']"
  using package_info_library_name [of "default_options\<lparr>shared := True\<rparr>" "''/''" linux_gcc new_cpp_info]
    package_info_library_name [of default_options "''/''" linux_gcc new_cpp_info]
    package_info_library_name [of default_options "[CHR 0x5C]"
      "linux_gcc\<lparr>os := ''Windows'', compiler := ''msvc'', compiler_version := ''193'',
                       compiler_runtime := Some ''static'', build_type := ''Debug''\<rparr>" new_cpp_info]
    package_info_library_name [of default_options "[CHR 0x5C]"
      "linux_gcc\<lparr>os := ''Windows'', compiler := ''msvc'', compiler_version := ''193'',
                       compiler_runtime := Some ''dynamic''\<rparr>" new_cpp_info]
  by (simp add: default_options_def linux_gcc_def is_msvc_def is_msvc_static_runtime_def
      msvc_runtime_flag_def)

text \<open>
  C7. Starting from a new \<^verbatim>\<open>cpp_info\<close>, the system libraries hold \<^verbatim>\<open>resolv\<close> exactly on
  an Apple system, Linux or FreeBSD, and \<^verbatim>\<open>m\<close> and \<^verbatim>\<open>pthread\<close> exactly on Linux or
  FreeBSD, and nothing else; on Linux all three are there, on Windows the list is empty.
\<close>

theorem package_info_system_libs_by_os:
  "(''resolv'' \<in> set (system_libs (package_info sep s opts new_cpp_info)) \<longleftrightarrow>
      is_apple_os s \<or> os s = ''Linux'' \<or> os s = ''FreeBSD'') \<and>
   (''m'' \<in> set (system_libs (package_info sep s opts new_cpp_info)) \<longleftrightarrow>
      os s = ''Linux'' \<or> os s = ''FreeBSD'') \<and>
   (''pthread'' \<in> set (system_libs (package_info sep s opts new_cpp_info)) \<longleftrightarrow>
      os s = ''Linux'' \<or> os s = ''FreeBSD'') \<and>
   set (system_libs (package_info sep s opts new_cpp_info)) \<subseteq> {''resolv'', ''m'', ''pthread''} \<and>
   (os s = ''Linux'' \<longrightarrow>
      {''resolv'', ''m'', ''pthread''} \<subseteq> set (system_libs (package_info sep s opts new_cpp_info))) \<and>
   (os s = ''Windows'' \<longrightarrow> system_libs (package_info sep s opts new_cpp_info) = [])"
  by (auto simp: package_info_system_libs new_cpp_info_def is_apple_os_def)

theorem package_info_system_libs_by_os_witness:
  "system_libs (package_info ''/'' linux_gcc default_options new_cpp_info) =
     [''resolv'', ''m'', ''pthread''] \<and>
   system_libs (package_info ''/'' (linux_gcc\<lparr>os := ''Windows''\<rparr>) default_options new_cpp_info) = [] \<and>
   ''resolv'' \<in> set (system_libs
      (package_info ''/'' (linux_gcc\<lparr>os := ''Macos''\<rparr>) default_options new_cpp_info)) \<and>
   ''m'' \<notin> set (system_libs
      (package_info ''/'' (linux_gcc\<lparr>os := ''Macos''\<rparr>) default_options new_cpp_info))"
  using package_info_system_libs_by_os [of "''/''" linux_gcc default_options]
    package_info_system_libs_by_os [of "''/''" "linux_gcc\<lparr>os := ''Windows''\<rparr>" default_options]
    package_info_system_libs_by_os [of "''/''" "linux_gcc\<lparr>os := ''Macos''\<rparr>" default_options]
  by (simp add: linux_gcc_def is_apple_os_def package_info_system_libs new_cpp_info_def)

text \<open>
  C8. There is one library directory: \<^verbatim>\<open>lib\<close> for a Release build, \<^verbatim>\<open>debug\<close> below
  \<^verbatim>\<open>lib\<close> for a Debug build (\<^verbatim>\<open>lib/debug\<close> where the separator is the slash), and with
  MSVC the directory \<^verbatim>\<open>vs14\<close> below that one.
\<close>

theorem package_info_lib_search_dirs:
  "length (libdirs (package_info sep s opts ci)) = 1 \<and>
   (build_type s = ''Release'' \<and> \<not> is_msvc s \<longrightarrow>
      libdirs (package_info sep s opts ci) = [''lib'']) \<and>
   (build_type s = ''Debug'' \<and> \<not> is_msvc s \<longrightarrow>
      libdirs (package_info sep s opts ci) = [os_path_join sep ''lib'' ''debug'']) \<and>
   (build_type s = ''Debug'' \<and> \<not> is_msvc s \<and> sep = ''/'' \<longrightarrow>
      libdirs (package_info sep s opts ci) = [''lib/debug'']) \<and>
   (build_type s = ''Release'' \<and> is_msvc s \<longrightarrow>
      libdirs (package_info sep s opts ci) = [os_path_join sep ''lib'' ''vs14'']) \<and>
   (build_type s = ''Debug'' \<and> is_msvc s \<longrightarrow>
      libdirs (package_info sep s opts ci) =
        [os_path_join sep (os_path_join sep ''lib'' ''debug'') ''vs14''])"
  by (simp add: package_info_libdirs Let_def os_path_join_def)

theorem package_info_lib_search_dirs_witness:
  "libdirs (package_info ''/'' linux_gcc default_options new_cpp_info) = [''lib''] \<and>
   libdirs (package_info ''/'' (linux_gcc\<lparr>build_type := ''Debug''\<rparr>) default_options new_cpp_info) =
     [''lib/debug''] \<and>
   libdirs (package_info ''/'' (linux_gcc\<lparr>compiler := ''msvc''\<rparr>) default_options new_cpp_info) =
     [''lib/vs14''] \<and>
   libdirs (package_info ''/'' (linux_gcc\<lparr>compiler := ''msvc'', build_type := ''Debug''\<rparr>)
      default_options new_cpp_info) = [''lib/debug/vs14'']"
  using package_info_lib_search_dirs [of "''/''" linux_gcc default_options new_cpp_info]
    package_info_lib_search_dirs [of "''/''" "linux_gcc\<lparr>build_type := ''Debug''\<rparr>"
      default_options new_cpp_info]
    package_info_lib_search_dirs [of "''/''" "linux_gcc\<lparr>compiler := ''msvc''\<rparr>"
      default_options new_cpp_info]
    package_info_lib_search_dirs [of "''/''" "linux_gcc\<lparr>compiler := ''msvc'', build_type := ''Debug''\<rparr>"
      default_options new_cpp_info]
  by (simp add: linux_gcc_def is_msvc_def os_path_join_def)

text \<open>
  C9. The target is always \<^verbatim>\<open>mysql::concpp\<close>. The one alias is \<^verbatim>\<open>mysql::concpp\<close> with
  \<^verbatim>\<open>-static\<close> added for a shared build, then \<^verbatim>\<open>-debug\<close> for a Debug build; a static
  Release build has the alias \<^verbatim>\<open>mysql::concpp\<close>.
\<close>

theorem package_info_target_names:
  "cmake_target_name (package_info sep s opts ci) = Some ''mysql::concpp'' \<and>
   cmake_target_aliases (package_info sep s opts ci) =
     Some [''mysql::concpp'' @ (if shared opts then ''-static'' else []) @
           (if build_type s = ''Debug'' then ''-debug'' else [])] \<and>
   (\<not> shared opts \<and> build_type s = ''Release'' \<longrightarrow>
      cmake_target_aliases (package_info sep s opts ci) = Some [''mysql::concpp''])"
  by (simp add: package_info_targets)

theorem package_info_target_names_witness:
  "cmake_target_name (package_info ''/'' linux_gcc default_options new_cpp_info) =
     Some ''mysql::concpp'' \<and>
   cmake_target_aliases (package_info ''/'' linux_gcc default_options new_cpp_info) =
     Some [''mysql::concpp''] \<and>
   cmake_target_aliases (package_info ''/'' (linux_gcc\<lparr>build_type := ''Debug''\<rparr>)
      (default_options\<lparr>shared := True\<rparr>) new_cpp_info) = Some [''mysql::concpp-static-debug'']"
  using package_info_target_names [of "''/''" linux_gcc default_options new_cpp_info]
    package_info_target_names [of "''/''" "linux_gcc\<lparr>build_type := ''Debug''\<rparr>"
      "default_options\<lparr>shared := True\<rparr>" new_cpp_info]
  by (simp add: linux_gcc_def default_options_def)

subsection \<open>Patching the sources\<close>

lemma and_then_Inl:
  "and_then r f = Inl e \<longleftrightarrow> r = Inl e \<or> (\<exists>x. r = Inr x \<and> f x = Inl e)"
  by (cases r) (simp_all add: and_then_def)

lemma isl_and_then:
  "(\<And>x. r = Inr x \<Longrightarrow> isl (f x)) \<Longrightarrow> isl (and_then r f)"
  by (cases r) (simp_all add: and_then_def)

lemma replace_in_file_absent:
  assumes "tree p = Some c" "\<not> str_contains c search"
  shows "replace_in_file tree p search r True = Inl (ConanException search p)"
    and "replace_in_file tree p search r False = Inr tree"
  using assms by (simp_all add: replace_in_file_def)

lemma replace_in_file_other:
  "replace_in_file tree p search r strict = Inr t \<Longrightarrow> q \<noteq> p \<Longrightarrow> t q = tree q"
  by (auto simp: replace_in_file_def split: option.splits if_splits)

lemma replace_in_file_error:
  "replace_in_file tree p search r strict = Inl e \<Longrightarrow>
   e = FileNotFoundError p \<or> (strict \<and> e = ConanException search p)"
  by (auto simp: replace_in_file_def split: option.splits if_splits)

lemma fix_static_lib_naming_other:
  "fix_static_lib_naming s opts tree = Inr t \<Longrightarrow> q \<noteq> [''install_layout.cmake''] \<Longrightarrow>
   t q = tree q"
  by (auto simp: fix_static_lib_naming_def dest: replace_in_file_other split: if_splits)

lemma apple_patches_other:
  "apple_patches s tree = Inr t \<Longrightarrow> q \<noteq> [''CMakeLists.txt''] \<Longrightarrow> t q = tree q"
  by (auto simp: apple_patches_def Let_def dest: replace_in_file_other split: if_splits)

lemma protobuf_patches_other:
  assumes "protobuf_patches deps tree = Inr t"
    and "q \<noteq> [''cdk'', ''cmake'', ''DepFindProtobuf.cmake'']"
    and "q \<noteq> [''cdk'', ''protocol'', ''mysqlx'', ''CMakeLists.txt'']"
    and "q \<noteq> [''cdk'', ''core'', ''CMakeLists.txt'']"
  shows "t q = tree q"
proof -
  from assms(1) obtain dep t1 t2 t3 r2 r3 where
    1: "replace_in_file tree [''cdk'', ''cmake'', ''DepFindProtobuf.cmake'']
          ''LIBRARY protobuf-lite pb_libprotobuf-lite'' [] True = Inr t1" and
    2: "replace_in_file t1 [''cdk'', ''cmake'', ''DepFindProtobuf.cmake'']
          ''LIBRARY protobuf'' r2 True = Inr t2" and
    3: "replace_in_file t2 [''cdk'', ''protocol'', ''mysqlx'', ''CMakeLists.txt'']
          ''ext::protobuf-lite'' r3 True = Inr t3" and
    4: "replace_in_file t3 [''cdk'', ''core'', ''CMakeLists.txt'']
          ''ext::protobuf-lite'' r3 True = Inr t"
    by (auto simp: protobuf_patches_def Let_def and_then_Inr split: option.splits)
  have "t q = t3 q" using replace_in_file_other [OF 4 assms(4)] .
  also have "\<dots> = t2 q" using replace_in_file_other [OF 3 assms(3)] .
  also have "\<dots> = t1 q" using replace_in_file_other [OF 2 assms(2)] .
  also have "\<dots> = tree q" using replace_in_file_other [OF 1 assms(2)] .
  finally show ?thesis .
qed

lemma fix_static_lib_naming_absent:
  assumes "tree [''install_layout.cmake''] = Some c"
    and "\<not> str_contains c (''set(LIB_NAME_STATIC '' @ dquote @ ''${LIB_NAME}-mt'' @ dquote @ '')'')"
  shows "fix_static_lib_naming s opts tree = Inr tree"
  using assms by (simp add: fix_static_lib_naming_def replace_in_file_absent(2))

lemma apple_patches_absent:
  assumes "tree [''CMakeLists.txt''] = Some c"
    and "\<not> str_contains c ''PROJECT(MySQL_CONCPP)''"
  shows "apple_patches s tree = Inr tree"
  using assms by (simp add: apple_patches_def Let_def replace_in_file_absent(2))

text \<open>The four strict rules, on the tree the protobuf patches start from.\<close>

lemma protobuf_patches_fails_1:
  assumes "tree [''cdk'', ''cmake'', ''DepFindProtobuf.cmake''] = Some c"
    and "\<not> str_contains c ''LIBRARY protobuf-lite pb_libprotobuf-lite''"
  shows "isl (protobuf_patches deps tree)"
  using assms
  by (simp add: protobuf_patches_def Let_def replace_in_file_absent(1) and_then_def
      split: option.splits)

lemma protobuf_patches_fails_2:
  assumes "tree [''cdk'', ''cmake'', ''DepFindProtobuf.cmake''] = Some c"
    and "\<not> str_contains (str_replace ''LIBRARY protobuf-lite pb_libprotobuf-lite'' [] c)
             ''LIBRARY protobuf''"
  shows "isl (protobuf_patches deps tree)"
proof (cases "build_deps deps ''protobuf''")
  case None
  then show ?thesis by (simp add: protobuf_patches_def)
next
  case (Some dep)
  show ?thesis
  proof (cases "str_contains c ''LIBRARY protobuf-lite pb_libprotobuf-lite''")
    case False
    with assms(1) show ?thesis by (rule protobuf_patches_fails_1)
  next
    case True
    let ?p = "[''cdk'', ''cmake'', ''DepFindProtobuf.cmake'']"
    let ?t1 = "tree(?p \<mapsto> str_replace ''LIBRARY protobuf-lite pb_libprotobuf-lite'' [] c)"
    have 1: "replace_in_file tree ?p ''LIBRARY protobuf-lite pb_libprotobuf-lite'' [] True =
               Inr ?t1"
      using assms(1) True by (simp add: replace_in_file_def)
    have 2: "replace_in_file ?t1 ?p ''LIBRARY protobuf'' r True =
               Inl (ConanException ''LIBRARY protobuf'' ?p)" for r
      using assms(2) by (intro replace_in_file_absent(1)) simp_all
    show ?thesis
      using Some by (simp add: protobuf_patches_def Let_def 1 2 and_then_def)
  qed
qed

lemma protobuf_patches_fails_3:
  assumes "tree [''cdk'', ''protocol'', ''mysqlx'', ''CMakeLists.txt''] = Some c"
    and "\<not> str_contains c ''ext::protobuf-lite''"
  shows "isl (protobuf_patches deps tree)"
proof (cases "build_deps deps ''protobuf''")
  case None
  then show ?thesis by (simp add: protobuf_patches_def)
next
  case (Some dep)
  let ?q = "[''cdk'', ''protocol'', ''mysqlx'', ''CMakeLists.txt'']"
  have *: "isl (and_then (replace_in_file tree p1 s1 x1 True) (\<lambda>t.
          and_then (replace_in_file t p2 s2 r2 True) (\<lambda>t.
          and_then (replace_in_file t ?q ''ext::protobuf-lite'' r3 True) f)))"
    if "p1 \<noteq> ?q" "p2 \<noteq> ?q" for p1 s1 x1 p2 s2 r2 r3 f
  proof (intro isl_and_then)
    fix t1 t2 t3
    assume a: "replace_in_file tree p1 s1 x1 True = Inr t1"
      "replace_in_file t1 p2 s2 r2 True = Inr t2"
      "replace_in_file t2 ?q ''ext::protobuf-lite'' r3 True = Inr t3"
    from a(1) that have "t1 ?q = Some c"
      using replace_in_file_other [of tree p1 s1 x1 True t1 ?q] assms(1) by simp
    with a(2) that have "t2 ?q = Some c"
      using replace_in_file_other [of t1 p2 s2 r2 True t2 ?q] by simp
    then have "replace_in_file t2 ?q ''ext::protobuf-lite'' r3 True =
        Inl (ConanException ''ext::protobuf-lite'' ?q)"
      using assms(2) by (rule replace_in_file_absent(1))
    with a(3) show "isl (f t3)" by simp
  qed
  from Some show ?thesis
    by (simp add: protobuf_patches_def Let_def *)
qed

lemma protobuf_patches_fails_4:
  assumes "tree [''cdk'', ''core'', ''CMakeLists.txt''] = Some c"
    and "\<not> str_contains c ''ext::protobuf-lite''"
  shows "isl (protobuf_patches deps tree)"
proof (cases "build_deps deps ''protobuf''")
  case None
  then show ?thesis by (simp add: protobuf_patches_def)
next
  case (Some dep)
  let ?q = "[''cdk'', ''core'', ''CMakeLists.txt'']"
  have *: "isl (and_then (replace_in_file tree p1 s1 x1 True) (\<lambda>t.
          and_then (replace_in_file t p2 s2 r2 True) (\<lambda>t.
          and_then (replace_in_file t p3 s3 r3 True) (\<lambda>t.
          replace_in_file t ?q ''ext::protobuf-lite'' r4 True))))"
    if "p1 \<noteq> ?q" "p2 \<noteq> ?q" "p3 \<noteq> ?q"
    for p1 s1 x1 p2 s2 r2 p3 s3 r3 r4
  proof (intro isl_and_then)
    fix t1 t2 t3
    assume a: "replace_in_file tree p1 s1 x1 True = Inr t1"
      "replace_in_file t1 p2 s2 r2 True = Inr t2"
      "replace_in_file t2 p3 s3 r3 True = Inr t3"
    from a(1) that have "t1 ?q = Some c"
      using replace_in_file_other [of tree p1 s1 x1 True t1 ?q] assms(1) by simp
    with a(2) that have "t2 ?q = Some c"
      using replace_in_file_other [of t1 p2 s2 r2 True t2 ?q] by simp
    with a(3) that have "t3 ?q = Some c"
      using replace_in_file_other [of t2 p3 s3 r3 True t3 ?q] by simp
    then have "replace_in_file t3 ?q ''ext::protobuf-lite'' r4 True =
        Inl (ConanException ''ext::protobuf-lite'' ?q)"
      using assms(2) by (rule replace_in_file_absent(1))
    then show "isl (replace_in_file t3 ?q ''ext::protobuf-lite'' r4 True)" by simp
  qed
  from Some show ?thesis
    by (simp add: protobuf_patches_def Let_def *)
qed

text \<open>A file the first two parts do not write reaches the protobuf patches as it was.\<close>

lemma patch_sources_fails:
  assumes "q \<noteq> [''install_layout.cmake'']" "q \<noteq> [''CMakeLists.txt'']"
    and "\<And>t. t q = tree q \<Longrightarrow> isl (protobuf_patches deps t)"
  shows "isl (patch_sources s opts deps tree)"
  unfolding patch_sources_def
proof (intro isl_and_then)
  fix t1 t2
  assume "fix_static_lib_naming s opts tree = Inr t1" "apple_patches s t1 = Inr t2"
  then have "t2 q = tree q"
    using fix_static_lib_naming_other [of s opts tree t1 q] apple_patches_other [of s t1 t2 q]
      assms(1,2) by simp
  then show "isl (protobuf_patches deps t2)" by (rule assms(3))
qed

lemma patch_sources_keeps_install_layout:
  assumes "patch_sources s opts deps tree = Inr t"
    and "fix_static_lib_naming s opts tree = Inr tree"
  shows "t [''install_layout.cmake''] = tree [''install_layout.cmake'']"
proof -
  from assms obtain t2 where
    2: "apple_patches s tree = Inr t2" and 3: "protobuf_patches deps t2 = Inr t"
    by (auto simp: patch_sources_def and_then_Inr)
  have "t [''install_layout.cmake''] = t2 [''install_layout.cmake'']"
    by (rule protobuf_patches_other [OF 3]) simp_all
  also have "\<dots> = tree [''install_layout.cmake'']"
    by (rule apple_patches_other [OF 2]) simp
  finally show ?thesis .
qed

lemma patch_sources_keeps_CMakeLists:
  assumes "patch_sources s opts deps tree = Inr t"
    and "tree [''CMakeLists.txt''] = Some c"
    and "\<not> str_contains c ''PROJECT(MySQL_CONCPP)''"
  shows "t [''CMakeLists.txt''] = Some c"
proof -
  from assms(1) obtain t1 t2 where
    1: "fix_static_lib_naming s opts tree = Inr t1" and
    2: "apple_patches s t1 = Inr t2" and 3: "protobuf_patches deps t2 = Inr t"
    by (auto simp: patch_sources_def and_then_Inr)
  have c1: "t1 [''CMakeLists.txt''] = Some c"
    using fix_static_lib_naming_other [OF 1, of "[''CMakeLists.txt'']"] assms(2) by simp
  then have "apple_patches s t1 = Inr t1"
    using assms(3) by (rule apple_patches_absent)
  with 2 have "t2 = t1" by simp
  have "t [''CMakeLists.txt''] = t2 [''CMakeLists.txt'']"
    by (rule protobuf_patches_other [OF 3]) simp_all
  with \<open>t2 = t1\<close> c1 show ?thesis by simp
qed

lemma patch_sources_without_cross_building:
  assumes "tree [''CMakeLists.txt''] = Some c"
    and "\<not> str_contains c ''PROJECT(MySQL_CONCPP)''"
  shows "patch_sources s opts deps tree =
         patch_sources (s\<lparr>cross_building := False\<rparr>) opts deps tree"
proof -
  have 1: "fix_static_lib_naming (s\<lparr>cross_building := False\<rparr>) opts tree =
           fix_static_lib_naming s opts tree"
    by (simp add: fix_static_lib_naming_def is_msvc_def)
  have 2: "apple_patches s t1 = apple_patches (s\<lparr>cross_building := False\<rparr>) t1"
    if "fix_static_lib_naming s opts tree = Inr t1" for t1
  proof -
    have "t1 [''CMakeLists.txt''] = Some c"
      using fix_static_lib_naming_other [OF that, of "[''CMakeLists.txt'']"] assms(1) by simp
    then have "apple_patches s t1 = Inr t1"
      using assms(2) by (rule apple_patches_absent)
    then show ?thesis by (simp add: apple_patches_def)
  qed
  show ?thesis
  proof (cases "fix_static_lib_naming s opts tree")
    case (Inl e)
    then show ?thesis by (simp add: patch_sources_def 1 and_then_def)
  next
    case (Inr t1)
    then show ?thesis using 2 [OF Inr] by (simp add: patch_sources_def 1 and_then_def)
  qed
qed

lemma fix_static_lib_naming_error:
  "fix_static_lib_naming s opts tree = Inl e \<Longrightarrow> e = FileNotFoundError [''install_layout.cmake'']"
  by (auto simp: fix_static_lib_naming_def dest: replace_in_file_error split: if_splits)

lemma apple_patches_error:
  "apple_patches s tree = Inl e \<Longrightarrow> e = FileNotFoundError [''CMakeLists.txt'']"
  by (auto simp: apple_patches_def Let_def dest: replace_in_file_error split: if_splits)

lemma protobuf_patches_error:
  assumes "protobuf_patches deps tree = Inl e"
  shows "e \<noteq> ConanException ''PROJECT(MySQL_CONCPP)'' p"
proof (cases "build_deps deps ''protobuf''")
  case None
  with assms show ?thesis by (auto simp: protobuf_patches_def)
next
  case (Some dep)
  with assms show ?thesis
    by (auto simp: protobuf_patches_def Let_def and_then_Inl dest!: replace_in_file_error)
qed

lemma patch_sources_no_anchor_error:
  "patch_sources s opts deps tree \<noteq> Inl (ConanException ''PROJECT(MySQL_CONCPP)'' p)"
proof
  assume "patch_sources s opts deps tree = Inl (ConanException ''PROJECT(MySQL_CONCPP)'' p)"
  then consider
      "fix_static_lib_naming s opts tree = Inl (ConanException ''PROJECT(MySQL_CONCPP)'' p)"
    | t1 where "apple_patches s t1 = Inl (ConanException ''PROJECT(MySQL_CONCPP)'' p)"
    | t2 where "protobuf_patches deps t2 = Inl (ConanException ''PROJECT(MySQL_CONCPP)'' p)"
    by (auto simp: patch_sources_def and_then_Inl)
  then show False
  proof cases
    case 1
    then show ?thesis by (auto dest: fix_static_lib_naming_error)
  next
    case 2
    then show ?thesis by (auto dest: apple_patches_error)
  next
    case 3
    then show ?thesis using protobuf_patches_error by blast
  qed
qed

lemmas patch_eval =
  patch_sources_def fix_static_lib_naming_def apple_patches_def protobuf_patches_def
  replace_in_file_def and_then_def file_after_def example_tree_def example_deps_def
  linux_gcc_def default_options_def is_msvc_def is_apple_os_def dquote_def newline_def

text \<open>Runs of \<^verbatim>\<open>_patch_sources\<close> on the example tree with one file changed.\<close>

lemma patch_example_DepFind_1:
  "patch_sources linux_gcc default_options example_deps
     (example_tree([''cdk'', ''cmake'', ''DepFindProtobuf.cmake''] \<mapsto> ''LIBRARY protobuf'')) =
     Inl (ConanException ''LIBRARY protobuf-lite pb_libprotobuf-lite''
            [''cdk'', ''cmake'', ''DepFindProtobuf.cmake''])"
  by (simp add: patch_eval Let_def)

lemma patch_example_DepFind_2:
  "patch_sources linux_gcc default_options example_deps
     (example_tree([''cdk'', ''cmake'', ''DepFindProtobuf.cmake''] \<mapsto>
        ''LIBRARY protobuf-lite pb_libprotobuf-lite'')) =
     Inl (ConanException ''LIBRARY protobuf'' [''cdk'', ''cmake'', ''DepFindProtobuf.cmake''])"
  by (simp add: patch_eval Let_def)

lemma patch_example_mysqlx:
  "patch_sources linux_gcc default_options example_deps
     (example_tree([''cdk'', ''protocol'', ''mysqlx'', ''CMakeLists.txt''] \<mapsto> ''ext::protobuf'')) =
     Inl (ConanException ''ext::protobuf-lite''
            [''cdk'', ''protocol'', ''mysqlx'', ''CMakeLists.txt''])"
  by (simp add: patch_eval Let_def)

lemma patch_example_core:
  "patch_sources linux_gcc default_options example_deps
     (example_tree([''cdk'', ''core'', ''CMakeLists.txt''] \<mapsto> ''ext::protobuf'')) =
     Inl (ConanException ''ext::protobuf-lite'' [''cdk'', ''core'', ''CMakeLists.txt''])"
  by (simp add: patch_eval Let_def)

lemma patch_example_msvc:
  "file_after
     (patch_sources (linux_gcc\<lparr>os := ''Windows'', compiler := ''msvc''\<rparr>) default_options
        example_deps (example_tree([''install_layout.cmake''] \<mapsto> ''set(LIB_NAME_STATIC x)'')))
     [''install_layout.cmake''] = Inr (Some ''set(LIB_NAME_STATIC x)'')"
  by (simp add: patch_eval Let_def)

lemma patch_example_msvc_found:
  "file_after
     (patch_sources (linux_gcc\<lparr>os := ''Windows'', compiler := ''msvc''\<rparr>) default_options
        example_deps example_tree)
     [''install_layout.cmake''] =
     Inr (Some (''set(LIB_NAME_STATIC '' @ dquote @ ''${LIB_NAME_STATIC}-mt'' @ dquote @ '')''))"
  by (simp add: patch_eval Let_def)

lemma patch_example_apple:
  "file_after
     (patch_sources (linux_gcc\<lparr>os := ''iOS'', arch := ''armv8'', cross_building := True\<rparr>)
        default_options example_deps
        (example_tree([''CMakeLists.txt''] \<mapsto> ''cmake_minimum_required(VERSION 3.15)'')))
     [''CMakeLists.txt''] = Inr (Some ''cmake_minimum_required(VERSION 3.15)'')"
  by (simp add: patch_eval Let_def)

lemma patch_example_apple_found:
  "file_after
     (patch_sources (linux_gcc\<lparr>os := ''iOS'', arch := ''armv8'', cross_building := True\<rparr>)
        default_options example_deps example_tree)
     [''CMakeLists.txt''] =
     Inr (Some (''PROJECT(MySQL_CONCPP)'' @ newline @ ''set(CMAKE_OSX_ARCHITECTURES '' @ dquote @
                ''armv8'' @ dquote @ '' CACHE INTERNAL '' @ dquote @ dquote @ '' FORCE)'' @
                newline))"
  by (simp add: patch_eval Let_def)

text \<open>
  C4. A protobuf patch (a strict call) whose text is not in its file when the call is
  made ends \<^verbatim>\<open>_patch_sources\<close> with an error: for the first and the last two calls that
  is the file as the sources have it, for the second call the file as the first call
  leaves it. The two calls with \<^verbatim>\<open>strict=False\<close>, when they apply and their text is not
  in the file, return the tree as it was: the run goes on as a shared build would (for
  the MSVC name), and no run that ends well has changed the file.
\<close>

theorem patch_sources_strict_and_tolerant:
  "(tree [''cdk'', ''cmake'', ''DepFindProtobuf.cmake''] = Some c \<and>
    \<not> str_contains c ''LIBRARY protobuf-lite pb_libprotobuf-lite'' \<longrightarrow>
      isl (patch_sources s opts deps tree)) \<and>
   (tree [''cdk'', ''cmake'', ''DepFindProtobuf.cmake''] = Some c \<and>
    \<not> str_contains (str_replace ''LIBRARY protobuf-lite pb_libprotobuf-lite'' [] c)
        ''LIBRARY protobuf'' \<longrightarrow>
      isl (patch_sources s opts deps tree)) \<and>
   (tree [''cdk'', ''protocol'', ''mysqlx'', ''CMakeLists.txt''] = Some c \<and>
    \<not> str_contains c ''ext::protobuf-lite'' \<longrightarrow>
      isl (patch_sources s opts deps tree)) \<and>
   (tree [''cdk'', ''core'', ''CMakeLists.txt''] = Some c \<and>
    \<not> str_contains c ''ext::protobuf-lite'' \<longrightarrow>
      isl (patch_sources s opts deps tree)) \<and>
   (\<not> shared opts \<and> is_msvc s \<and> tree [''install_layout.cmake''] = Some c \<and>
    \<not> str_contains c
        (''set(LIB_NAME_STATIC '' @ dquote @ ''${LIB_NAME}-mt'' @ dquote @ '')'') \<longrightarrow>
      fix_static_lib_naming s opts tree = Inr tree \<and>
      patch_sources s opts deps tree = patch_sources s (opts\<lparr>shared := True\<rparr>) deps tree \<and>
      (\<forall>t. patch_sources s opts deps tree = Inr t \<longrightarrow> t [''install_layout.cmake''] = Some c)) \<and>
   (is_apple_os s \<and> cross_building s \<and> tree [''CMakeLists.txt''] = Some c \<and>
    \<not> str_contains c ''PROJECT(MySQL_CONCPP)'' \<longrightarrow>
      apple_patches s tree = Inr tree \<and>
      (\<forall>t. patch_sources s opts deps tree = Inr t \<longrightarrow> t [''CMakeLists.txt''] = Some c))"
proof (intro conjI impI allI)
  assume "tree [''cdk'', ''cmake'', ''DepFindProtobuf.cmake''] = Some c \<and>
    \<not> str_contains c ''LIBRARY protobuf-lite pb_libprotobuf-lite''"
  then show "isl (patch_sources s opts deps tree)"
    by (intro patch_sources_fails [of "[''cdk'', ''cmake'', ''DepFindProtobuf.cmake'']"]
        protobuf_patches_fails_1 [of _ c]) simp_all
next
  assume "tree [''cdk'', ''cmake'', ''DepFindProtobuf.cmake''] = Some c \<and>
    \<not> str_contains (str_replace ''LIBRARY protobuf-lite pb_libprotobuf-lite'' [] c)
        ''LIBRARY protobuf''"
  then show "isl (patch_sources s opts deps tree)"
    by (intro patch_sources_fails [of "[''cdk'', ''cmake'', ''DepFindProtobuf.cmake'']"]
        protobuf_patches_fails_2 [of _ c]) simp_all
next
  assume "tree [''cdk'', ''protocol'', ''mysqlx'', ''CMakeLists.txt''] = Some c \<and>
    \<not> str_contains c ''ext::protobuf-lite''"
  then show "isl (patch_sources s opts deps tree)"
    by (intro patch_sources_fails [of "[''cdk'', ''protocol'', ''mysqlx'', ''CMakeLists.txt'']"]
        protobuf_patches_fails_3 [of _ c]) simp_all
next
  assume "tree [''cdk'', ''core'', ''CMakeLists.txt''] = Some c \<and>
    \<not> str_contains c ''ext::protobuf-lite''"
  then show "isl (patch_sources s opts deps tree)"
    by (intro patch_sources_fails [of "[''cdk'', ''core'', ''CMakeLists.txt'']"]
        protobuf_patches_fails_4 [of _ c]) simp_all
next
  assume a: "\<not> shared opts \<and> is_msvc s \<and> tree [''install_layout.cmake''] = Some c \<and>
    \<not> str_contains c
        (''set(LIB_NAME_STATIC '' @ dquote @ ''${LIB_NAME}-mt'' @ dquote @ '')'')"
  then show 1: "fix_static_lib_naming s opts tree = Inr tree"
    by (intro fix_static_lib_naming_absent [of _ c]) simp_all
  have "fix_static_lib_naming s (opts\<lparr>shared := True\<rparr>) tree = Inr tree"
    by (simp add: fix_static_lib_naming_def)
  with 1 show "patch_sources s opts deps tree =
      patch_sources s (opts\<lparr>shared := True\<rparr>) deps tree"
    by (simp add: patch_sources_def)
  fix t
  assume "patch_sources s opts deps tree = Inr t"
  then show "t [''install_layout.cmake''] = Some c"
    using patch_sources_keeps_install_layout [OF _ 1] a by simp
next
  assume a: "is_apple_os s \<and> cross_building s \<and> tree [''CMakeLists.txt''] = Some c \<and>
    \<not> str_contains c ''PROJECT(MySQL_CONCPP)''"
  then show "apple_patches s tree = Inr tree"
    by (intro apple_patches_absent [of _ c]) simp_all
  fix t
  assume "patch_sources s opts deps tree = Inr t"
  then show "t [''CMakeLists.txt''] = Some c"
    using a by (intro patch_sources_keeps_CMakeLists [of s opts deps tree t c]) simp_all
qed

theorem patch_sources_strict_and_tolerant_witness:
  "isl (patch_sources linux_gcc default_options example_deps
     (example_tree([''cdk'', ''cmake'', ''DepFindProtobuf.cmake''] \<mapsto> ''LIBRARY protobuf''))) \<and>
   patch_sources linux_gcc default_options example_deps
     (example_tree([''cdk'', ''cmake'', ''DepFindProtobuf.cmake''] \<mapsto> ''LIBRARY protobuf'')) =
     Inl (ConanException ''LIBRARY protobuf-lite pb_libprotobuf-lite''
            [''cdk'', ''cmake'', ''DepFindProtobuf.cmake'']) \<and>
   isl (patch_sources linux_gcc default_options example_deps
     (example_tree([''cdk'', ''cmake'', ''DepFindProtobuf.cmake''] \<mapsto>
        ''LIBRARY protobuf-lite pb_libprotobuf-lite''))) \<and>
   patch_sources linux_gcc default_options example_deps
     (example_tree([''cdk'', ''cmake'', ''DepFindProtobuf.cmake''] \<mapsto>
        ''LIBRARY protobuf-lite pb_libprotobuf-lite'')) =
     Inl (ConanException ''LIBRARY protobuf'' [''cdk'', ''cmake'', ''DepFindProtobuf.cmake'']) \<and>
   isl (patch_sources linux_gcc default_options example_deps
     (example_tree([''cdk'', ''protocol'', ''mysqlx'', ''CMakeLists.txt''] \<mapsto> ''ext::protobuf''))) \<and>
   patch_sources linux_gcc default_options example_deps
     (example_tree([''cdk'', ''protocol'', ''mysqlx'', ''CMakeLists.txt''] \<mapsto> ''ext::protobuf'')) =
     Inl (ConanException ''ext::protobuf-lite''
            [''cdk'', ''protocol'', ''mysqlx'', ''CMakeLists.txt'']) \<and>
   isl (patch_sources linux_gcc default_options example_deps
     (example_tree([''cdk'', ''core'', ''CMakeLists.txt''] \<mapsto> ''ext::protobuf''))) \<and>
   patch_sources linux_gcc default_options example_deps
     (example_tree([''cdk'', ''core'', ''CMakeLists.txt''] \<mapsto> ''ext::protobuf'')) =
     Inl (ConanException ''ext::protobuf-lite'' [''cdk'', ''core'', ''CMakeLists.txt'']) \<and>
   fix_static_lib_naming (linux_gcc\<lparr>os := ''Windows'', compiler := ''msvc''\<rparr>) default_options
     (example_tree([''install_layout.cmake''] \<mapsto> ''set(LIB_NAME_STATIC x)'')) =
     Inr (example_tree([''install_layout.cmake''] \<mapsto> ''set(LIB_NAME_STATIC x)'')) \<and>
   file_after
     (patch_sources (linux_gcc\<lparr>os := ''Windows'', compiler := ''msvc''\<rparr>) default_options
        example_deps (example_tree([''install_layout.cmake''] \<mapsto> ''set(LIB_NAME_STATIC x)'')))
     [''install_layout.cmake''] = Inr (Some ''set(LIB_NAME_STATIC x)'') \<and>
   apple_patches (linux_gcc\<lparr>os := ''iOS'', arch := ''armv8'', cross_building := True\<rparr>)
     (example_tree([''CMakeLists.txt''] \<mapsto> ''cmake_minimum_required(VERSION 3.15)'')) =
     Inr (example_tree([''CMakeLists.txt''] \<mapsto> ''cmake_minimum_required(VERSION 3.15)'')) \<and>
   file_after
     (patch_sources (linux_gcc\<lparr>os := ''iOS'', arch := ''armv8'', cross_building := True\<rparr>)
        default_options example_deps
        (example_tree([''CMakeLists.txt''] \<mapsto> ''cmake_minimum_required(VERSION 3.15)'')))
     [''CMakeLists.txt''] = Inr (Some ''cmake_minimum_required(VERSION 3.15)'')"
proof -
  let ?d = "[''cdk'', ''cmake'', ''DepFindProtobuf.cmake'']"
  let ?m = "[''cdk'', ''protocol'', ''mysqlx'', ''CMakeLists.txt'']"
  let ?c = "[''cdk'', ''core'', ''CMakeLists.txt'']"
  let ?msvc = "linux_gcc\<lparr>os := ''Windows'', compiler := ''msvc''\<rparr>"
  let ?ios = "linux_gcc\<lparr>os := ''iOS'', arch := ''armv8'', cross_building := True\<rparr>"
  note T = patch_sources_strict_and_tolerant
  have h1: "(example_tree(?d \<mapsto> ''LIBRARY protobuf'')) ?d = Some ''LIBRARY protobuf'' \<and>
      \<not> str_contains ''LIBRARY protobuf'' ''LIBRARY protobuf-lite pb_libprotobuf-lite''"
    by simp
  have 1: "isl (patch_sources linux_gcc default_options example_deps
      (example_tree(?d \<mapsto> ''LIBRARY protobuf'')))"
    using T [where tree = "example_tree(?d \<mapsto> ''LIBRARY protobuf'')"
        and c = "''LIBRARY protobuf''" and s = linux_gcc and opts = default_options
        and deps = example_deps, THEN conjunct1, rule_format, OF h1] .
  have h2: "(example_tree(?d \<mapsto> ''LIBRARY protobuf-lite pb_libprotobuf-lite'')) ?d =
        Some ''LIBRARY protobuf-lite pb_libprotobuf-lite'' \<and>
      \<not> str_contains (str_replace ''LIBRARY protobuf-lite pb_libprotobuf-lite'' []
            ''LIBRARY protobuf-lite pb_libprotobuf-lite'') ''LIBRARY protobuf''"
    by simp
  have 2: "isl (patch_sources linux_gcc default_options example_deps
      (example_tree(?d \<mapsto> ''LIBRARY protobuf-lite pb_libprotobuf-lite'')))"
    using T [where tree = "example_tree(?d \<mapsto> ''LIBRARY protobuf-lite pb_libprotobuf-lite'')"
        and c = "''LIBRARY protobuf-lite pb_libprotobuf-lite''" and s = linux_gcc
        and opts = default_options and deps = example_deps,
        THEN conjunct2, THEN conjunct1, rule_format, OF h2] .
  have h3: "(example_tree(?m \<mapsto> ''ext::protobuf'')) ?m = Some ''ext::protobuf'' \<and>
      \<not> str_contains ''ext::protobuf'' ''ext::protobuf-lite''"
    by simp
  have 3: "isl (patch_sources linux_gcc default_options example_deps
      (example_tree(?m \<mapsto> ''ext::protobuf'')))"
    using T [where tree = "example_tree(?m \<mapsto> ''ext::protobuf'')"
        and c = "''ext::protobuf''" and s = linux_gcc and opts = default_options
        and deps = example_deps,
        THEN conjunct2, THEN conjunct2, THEN conjunct1, rule_format, OF h3] .
  have h4: "(example_tree(?c \<mapsto> ''ext::protobuf'')) ?c = Some ''ext::protobuf'' \<and>
      \<not> str_contains ''ext::protobuf'' ''ext::protobuf-lite''"
    by simp
  have 4: "isl (patch_sources linux_gcc default_options example_deps
      (example_tree(?c \<mapsto> ''ext::protobuf'')))"
    using T [where tree = "example_tree(?c \<mapsto> ''ext::protobuf'')"
        and c = "''ext::protobuf''" and s = linux_gcc and opts = default_options
        and deps = example_deps,
        THEN conjunct2, THEN conjunct2, THEN conjunct2, THEN conjunct1, rule_format, OF h4] .
  have h5: "\<not> shared default_options \<and> is_msvc ?msvc \<and>
      (example_tree([''install_layout.cmake''] \<mapsto> ''set(LIB_NAME_STATIC x)''))
        [''install_layout.cmake''] = Some ''set(LIB_NAME_STATIC x)'' \<and>
      \<not> str_contains ''set(LIB_NAME_STATIC x)''
          (''set(LIB_NAME_STATIC '' @ dquote @ ''${LIB_NAME}-mt'' @ dquote @ '')'')"
    by (simp add: default_options_def is_msvc_def linux_gcc_def dquote_def)
  have 5: "fix_static_lib_naming ?msvc default_options
      (example_tree([''install_layout.cmake''] \<mapsto> ''set(LIB_NAME_STATIC x)'')) =
      Inr (example_tree([''install_layout.cmake''] \<mapsto> ''set(LIB_NAME_STATIC x)''))"
    using T [where tree = "example_tree([''install_layout.cmake''] \<mapsto> ''set(LIB_NAME_STATIC x)'')"
        and c = "''set(LIB_NAME_STATIC x)''" and s = ?msvc and opts = default_options
        and deps = example_deps,
        THEN conjunct2, THEN conjunct2, THEN conjunct2, THEN conjunct2, THEN conjunct1,
        rule_format, OF h5, THEN conjunct1] .
  have h6: "is_apple_os ?ios \<and> cross_building ?ios \<and>
      (example_tree([''CMakeLists.txt''] \<mapsto> ''cmake_minimum_required(VERSION 3.15)''))
        [''CMakeLists.txt''] = Some ''cmake_minimum_required(VERSION 3.15)'' \<and>
      \<not> str_contains ''cmake_minimum_required(VERSION 3.15)'' ''PROJECT(MySQL_CONCPP)''"
    by (simp add: is_apple_os_def linux_gcc_def)
  have 6: "apple_patches ?ios
      (example_tree([''CMakeLists.txt''] \<mapsto> ''cmake_minimum_required(VERSION 3.15)'')) =
      Inr (example_tree([''CMakeLists.txt''] \<mapsto> ''cmake_minimum_required(VERSION 3.15)''))"
    using T [where tree = "example_tree([''CMakeLists.txt''] \<mapsto>
          ''cmake_minimum_required(VERSION 3.15)'')"
        and c = "''cmake_minimum_required(VERSION 3.15)''" and s = ?ios
        and opts = default_options and deps = example_deps,
        THEN conjunct2, THEN conjunct2, THEN conjunct2, THEN conjunct2, THEN conjunct2,
        rule_format, OF h6, THEN conjunct1] .
  show ?thesis
    by (intro conjI 1 2 3 4 5 6 patch_example_DepFind_1 patch_example_DepFind_2
        patch_example_mysqlx patch_example_core patch_example_msvc patch_example_apple)
qed

text \<open>
  C10. In a cross build to an Apple system, when \<^verbatim>\<open>CMakeLists.txt\<close> is there and has no
  \<^verbatim>\<open>PROJECT(MySQL_CONCPP)\<close>, the Apple patch returns the tree as it was and
  \<^verbatim>\<open>_patch_sources\<close> does exactly what it does when not cross building; a run that ends
  well leaves the file as it was, so no architecture is forced. In no case does
  \<^verbatim>\<open>_patch_sources\<close> raise the error of a missing text for that anchor.
\<close>

theorem apple_injection_is_tolerant:
  "(is_apple_os s \<and> cross_building s \<and> tree [''CMakeLists.txt''] = Some c \<and>
    \<not> str_contains c ''PROJECT(MySQL_CONCPP)'' \<longrightarrow>
      patch_sources s opts deps tree =
        patch_sources (s\<lparr>cross_building := False\<rparr>) opts deps tree \<and>
      file_after (patch_sources s opts deps tree) [''CMakeLists.txt''] \<noteq> Inr None \<and>
      (\<forall>t. patch_sources s opts deps tree = Inr t \<longrightarrow>
           t [''CMakeLists.txt''] = tree [''CMakeLists.txt'']) \<and>
      apple_patches s tree = Inr tree) \<and>
   patch_sources s opts deps tree \<noteq> Inl (ConanException ''PROJECT(MySQL_CONCPP)'' p)"
proof (intro conjI impI allI)
  assume a: "is_apple_os s \<and> cross_building s \<and> tree [''CMakeLists.txt''] = Some c \<and>
    \<not> str_contains c ''PROJECT(MySQL_CONCPP)''"
  then show "patch_sources s opts deps tree =
      patch_sources (s\<lparr>cross_building := False\<rparr>) opts deps tree"
    by (intro patch_sources_without_cross_building [of tree c]) simp_all
  have *: "t [''CMakeLists.txt''] = Some c" if "patch_sources s opts deps tree = Inr t" for t
    using that a by (intro patch_sources_keeps_CMakeLists [of s opts deps tree t c]) simp_all
  then show "file_after (patch_sources s opts deps tree) [''CMakeLists.txt''] \<noteq> Inr None"
    by (cases "patch_sources s opts deps tree") (simp_all add: file_after_def)
  from a show "apple_patches s tree = Inr tree"
    by (intro apple_patches_absent [of _ c]) simp_all
  fix t
  assume "patch_sources s opts deps tree = Inr t"
  then show "t [''CMakeLists.txt''] = tree [''CMakeLists.txt'']"
    using * a by simp
next
  show "patch_sources s opts deps tree \<noteq> Inl (ConanException ''PROJECT(MySQL_CONCPP)'' p)"
    by (rule patch_sources_no_anchor_error)
qed

theorem apple_injection_is_tolerant_witness:
  "patch_sources (linux_gcc\<lparr>os := ''iOS'', arch := ''armv8'', cross_building := True\<rparr>)
     default_options example_deps
     (example_tree([''CMakeLists.txt''] \<mapsto> ''cmake_minimum_required(VERSION 3.15)'')) =
   patch_sources (linux_gcc\<lparr>os := ''iOS'', arch := ''armv8'', cross_building := False\<rparr>)
     default_options example_deps
     (example_tree([''CMakeLists.txt''] \<mapsto> ''cmake_minimum_required(VERSION 3.15)'')) \<and>
   file_after
     (patch_sources (linux_gcc\<lparr>os := ''iOS'', arch := ''armv8'', cross_building := True\<rparr>)
        default_options example_deps
        (example_tree([''CMakeLists.txt''] \<mapsto> ''cmake_minimum_required(VERSION 3.15)'')))
     [''CMakeLists.txt''] = Inr (Some ''cmake_minimum_required(VERSION 3.15)'') \<and>
   file_after
     (patch_sources (linux_gcc\<lparr>os := ''iOS'', arch := ''armv8'', cross_building := True\<rparr>)
        default_options example_deps example_tree)
     [''CMakeLists.txt''] =
     Inr (Some (''PROJECT(MySQL_CONCPP)'' @ newline @ ''set(CMAKE_OSX_ARCHITECTURES '' @ dquote @
                ''armv8'' @ dquote @ '' CACHE INTERNAL '' @ dquote @ dquote @ '' FORCE)'' @
                newline))"
proof -
  let ?ios = "linux_gcc\<lparr>os := ''iOS'', arch := ''armv8'', cross_building := True\<rparr>"
  let ?tree = "example_tree([''CMakeLists.txt''] \<mapsto> ''cmake_minimum_required(VERSION 3.15)'')"
  have h: "is_apple_os ?ios \<and> cross_building ?ios \<and>
      ?tree [''CMakeLists.txt''] = Some ''cmake_minimum_required(VERSION 3.15)'' \<and>
      \<not> str_contains ''cmake_minimum_required(VERSION 3.15)'' ''PROJECT(MySQL_CONCPP)''"
    by (simp add: is_apple_os_def linux_gcc_def)
  have "patch_sources ?ios default_options example_deps ?tree =
      patch_sources (?ios\<lparr>cross_building := False\<rparr>) default_options example_deps ?tree"
    using apple_injection_is_tolerant [where tree = ?tree
        and c = "''cmake_minimum_required(VERSION 3.15)''" and s = ?ios
        and opts = default_options and deps = example_deps and p = "[]",
        THEN conjunct1, rule_format, OF h, THEN conjunct1] .
  then have 1: "patch_sources ?ios default_options example_deps ?tree =
      patch_sources (linux_gcc\<lparr>os := ''iOS'', arch := ''armv8'', cross_building := False\<rparr>)
        default_options example_deps ?tree"
    by simp
  show ?thesis
    by (intro conjI 1 patch_example_apple patch_example_apple_found)
qed

end
